theory Spec2Isabelle
  imports Complex_Main "HOL-Library.Sublist"
begin

section \<open>Python strings\<close>

text \<open>
  A Python \<open>str\<close> is modelled as a \<open>string\<close> (a list of characters).  The operations the
  program applies to strings are \<open>lower()\<close>, \<open>strip()\<close>, the substring test \<open>p in s\<close>, and
  the slice \<open>s[:n]\<close>.  Lowering acts on the letters \<open>A\<close> to \<open>Z\<close>; the white space removed
  by \<open>strip()\<close> is the set of characters for which \<open>str.isspace\<close> holds below code point 128.
\<close>

definition lower_char :: "char \<Rightarrow> char" where
  "lower_char c =
     (let n = (of_char c :: nat) in if 65 \<le> n \<and> n \<le> 90 then char_of (n + 32) else c)"

definition lower :: "string \<Rightarrow> string" where
  "lower s = map lower_char s"

definition is_space :: "char \<Rightarrow> bool" where
  "is_space c = (let n = (of_char c :: nat) in (9 \<le> n \<and> n \<le> 13) \<or> (28 \<le> n \<and> n \<le> 32))"

definition strip :: "string \<Rightarrow> string" where
  "strip s = rev (dropWhile is_space (rev (dropWhile is_space s)))"

text \<open>\<open>is_in p s\<close> is Python's \<open>p in s\<close> on strings: \<open>p\<close> occurs in \<open>s\<close> as a contiguous block.\<close>

fun is_in :: "string \<Rightarrow> string \<Rightarrow> bool" where
  "is_in p [] = (p = [])"
| "is_in p (c # s) = (prefix p (c # s) \<or> is_in p s)"

text \<open>\<open>py_take n s\<close> is the slice \<open>s[:n]\<close>; a negative \<open>n\<close> counts from the end.\<close>

definition py_take :: "int \<Rightarrow> string \<Rightarrow> string" where
  "py_take n s = (if 0 \<le> n then take (nat n) s else take (length s - nat (- n)) s)"

section \<open>Data model (models.py)\<close>

record job_posting =
  job_id :: string
  title :: string
  company :: string
  location :: string
  description :: string
  url :: string

record application_result =
  r_job_id :: string
  r_title :: string
  r_company :: string
  r_url :: string
  r_status :: string
  r_reason :: string

section \<open>The LLM client (llm.py)\<close>

text \<open>
  The hosted chat-completion API is the environment.  A request for an application question
  is determined by the prompt, the job's title and company, the allowed choices and the
  default answer (the system message is a constant); the provider either raises or returns a
  message whose content may be absent.  \<open>llm_enabled\<close> is the property \<open>enabled\<close>
  (\<open>self._client is not None\<close>).  Every function that may contact the provider returns, next
  to its value, the list of requests it has sent.
\<close>

type_synonym question_request = "string \<times> string \<times> string \<times> string list \<times> string"

datatype completion = ProviderError | Reply "string option"

record llm_client =
  llm_enabled :: bool
  llm_complete :: "question_request \<Rightarrow> completion"

definition chat :: "llm_client \<Rightarrow> question_request \<Rightarrow> string \<times> question_request list" where
  "chat c req =
     (if \<not> llm_enabled c then ('''', [])
      else (case llm_complete c req of
              ProviderError \<Rightarrow> ''''
            | Reply m \<Rightarrow> strip (case m of None \<Rightarrow> '''' | Some s \<Rightarrow> s),
            [req]))"

text \<open>The dictionary \<open>{c.lower(): c for c in choices}\<close>: a later choice replaces an earlier
  one with the same lowered text.\<close>

definition lowered :: "string list \<Rightarrow> (string \<rightharpoonup> string)" where
  "lowered choices = fold (\<lambda>c m. m(lower c \<mapsto> c)) choices Map.empty"

definition answer_application_question_run ::
  "llm_client \<Rightarrow> string \<Rightarrow> job_posting \<Rightarrow> string \<Rightarrow> string list option
     \<Rightarrow> string \<times> question_request list" where
  "answer_application_question_run c prompt job default_answer allowed_choices =
     (if \<not> llm_enabled c then (default_answer, [])
      else
        let choices = (case allowed_choices of None \<Rightarrow> [] | Some cs \<Rightarrow> cs);
            (raw, calls) = chat c (prompt, title job, company job, choices, default_answer);
            answer = strip raw
        in (if answer = [] then default_answer
            else if choices \<noteq> [] then
              (case lowered choices (lower answer) of
                 Some ch \<Rightarrow> ch
               | None \<Rightarrow>
                   (case find (\<lambda>choice. is_in (lower choice) (lower answer)) choices of
                      Some choice \<Rightarrow> choice
                    | None \<Rightarrow> if default_answer \<in> set choices then default_answer
                              else hd choices))
            else answer,
            calls))"

definition answer_application_question ::
  "llm_client \<Rightarrow> string \<Rightarrow> job_posting \<Rightarrow> string \<Rightarrow> string list option \<Rightarrow> string" where
  "answer_application_question c prompt job default_answer allowed_choices =
     fst (answer_application_question_run c prompt job default_answer allowed_choices)"

section \<open>The question answerer (question\_answerer.py)\<close>

record alias_rule =
  rule_key :: string
  rule_patterns :: "string list"

record question_answerer =
  max_answer_chars :: int
  llm :: llm_client
  defaults :: "string \<rightharpoonup> string"
  alias_rules :: "alias_rule list"

text \<open>\<open>defaults.get(k, "")\<close>.\<close>

definition get_default :: "(string \<rightharpoonup> string) \<Rightarrow> string \<Rightarrow> string" where
  "get_default d k = (case d k of None \<Rightarrow> '''' | Some v \<Rightarrow> v)"

text \<open>The two nested loops of \<open>_alias_key_for_prompt\<close>: the inner one over the patterns of
  a rule, the outer one over the rules.\<close>

fun pattern_hit :: "string list \<Rightarrow> string \<Rightarrow> bool" where
  "pattern_hit [] prompt = False"
| "pattern_hit (pattern # ps) prompt =
     (if pattern \<noteq> [] \<and> is_in pattern prompt then True else pattern_hit ps prompt)"

fun alias_key_for_prompt :: "alias_rule list \<Rightarrow> string \<Rightarrow> string" where
  "alias_key_for_prompt [] prompt = ''''"
| "alias_key_for_prompt (rule # rules) prompt =
     (if pattern_hit (rule_patterns rule) prompt then rule_key rule
      else alias_key_for_prompt rules prompt)"

definition match_choice :: "string \<Rightarrow> string list \<Rightarrow> string" where
  "match_choice answer choices =
     (if answer = [] then ''''
      else (case lowered choices (lower answer) of
              Some ch \<Rightarrow> ch
            | None \<Rightarrow>
                (case find (\<lambda>choice. is_in (lower choice) (lower answer)
                                      \<or> is_in (lower answer) (lower choice)) choices of
                   Some choice \<Rightarrow> choice
                 | None \<Rightarrow> '''')))"

definition heuristic_default :: "string \<Rightarrow> string" where
  "heuristic_default prompt =
     (if is_in ''authorized to work'' prompt \<or> is_in ''work authorization'' prompt then ''Yes''
      else if is_in ''sponsorship'' prompt \<or> is_in ''visa'' prompt then ''No''
      else if is_in ''relocate'' prompt then ''Yes''
      else '''')"

text \<open>The first three statements of \<open>answer\<close>: the normalised prompt, the normalised
  choice list, and the default answer resolved from the alias rules or the heuristic table.\<close>

definition normalize_prompt :: "string \<Rightarrow> string" where
  "normalize_prompt prompt = lower (strip prompt)"

definition normalize_choices :: "string list option \<Rightarrow> string list" where
  "normalize_choices choices =
     map strip (filter (\<lambda>choice. strip choice \<noteq> [])
                  (case choices of None \<Rightarrow> [] | Some cs \<Rightarrow> cs))"

definition resolve_default :: "question_answerer \<Rightarrow> string \<Rightarrow> string" where
  "resolve_default qa prompt_norm =
     (let key = alias_key_for_prompt (alias_rules qa) prompt_norm;
          default_answer = (if key \<noteq> [] then get_default (defaults qa) key else '''')
      in if default_answer = [] then heuristic_default prompt_norm else default_answer)"

definition or_first :: "string \<Rightarrow> string list \<Rightarrow> string" where
  "or_first s choices = (if s \<noteq> [] then s else hd choices)"

definition answer_run ::
  "question_answerer \<Rightarrow> string \<Rightarrow> string \<Rightarrow> job_posting \<Rightarrow> string list option
     \<Rightarrow> string \<times> question_request list" where
  "answer_run qa prompt input_type job choices0 =
     (let prompt_norm = normalize_prompt prompt;
          choices = normalize_choices choices0;
          default_answer = resolve_default qa prompt_norm
      in if choices \<noteq> [] \<and> match_choice default_answer choices \<noteq> []
         then (match_choice default_answer choices, [])
         else
           let (llm_answer, calls) =
                 (if llm_enabled (llm qa)
                  then answer_application_question_run (llm qa) prompt job default_answer
                         (Some choices)
                  else ('''', []))
           in if llm_enabled (llm qa) \<and> llm_answer \<noteq> [] then
                (if choices \<noteq> [] then or_first (match_choice llm_answer choices) choices
                 else py_take (max_answer_chars qa) llm_answer,
                 calls)
              else if default_answer \<noteq> [] then
                (if choices \<noteq> [] then or_first (match_choice default_answer choices) choices
                 else py_take (max_answer_chars qa) default_answer,
                 calls)
              else if choices \<noteq> [] then (hd choices, calls)
              else if input_type = ''email'' then (get_default (defaults qa) ''email'', calls)
              else if input_type = ''tel'' then (get_default (defaults qa) ''phone'', calls)
              else if is_in ''linkedin'' prompt_norm
                then (get_default (defaults qa) ''linkedin'', calls)
              else if is_in ''github'' prompt_norm
                then (get_default (defaults qa) ''github'', calls)
              else if is_in ''portfolio'' prompt_norm \<or> is_in ''website'' prompt_norm
                then (get_default (defaults qa) ''portfolio'', calls)
              else ('''', calls))"

definition answer ::
  "question_answerer \<Rightarrow> string \<Rightarrow> string \<Rightarrow> job_posting \<Rightarrow> string list option \<Rightarrow> string" where
  "answer qa prompt input_type job choices = fst (answer_run qa prompt input_type job choices)"


text \<open>
  Two readings of "the first rule that has a matching pattern", for comparison with
  \<open>alias_key_for_prompt\<close>: \<open>rule_matches_spec\<close> follows the specification's words (a
  pattern matches when it is a substring of the prompt); \<open>rule_matches\<close> also asks the
  pattern to be non-empty, as the guard \<open>if pattern and pattern in prompt\<close> does.
\<close>

definition rule_matches_spec :: "string \<Rightarrow> alias_rule \<Rightarrow> bool" where
  "rule_matches_spec prompt rule = list_ex (\<lambda>p. is_in p prompt) (rule_patterns rule)"

definition first_matching_key_spec :: "alias_rule list \<Rightarrow> string \<Rightarrow> string" where
  "first_matching_key_spec rules prompt =
     (case find (rule_matches_spec prompt) rules of None \<Rightarrow> '''' | Some r \<Rightarrow> rule_key r)"

definition rule_matches :: "string \<Rightarrow> alias_rule \<Rightarrow> bool" where
  "rule_matches prompt rule = list_ex (\<lambda>p. p \<noteq> [] \<and> is_in p prompt) (rule_patterns rule)"

section \<open>Parsed YAML documents and Python conversions\<close>

text \<open>
  The value \<open>yaml.safe_load\<close> returns.  A mapping is the list of its items (its keys are
  distinct).  A file is absent, unreadable as YAML, or holds a document; the empty file holds
  the document \<open>None\<close>.
\<close>

datatype yaml =
    YNull
  | YBool bool
  | YInt int
  | YFloat real
  | YStr string
  | YSeq "yaml list"
  | YMap "(yaml \<times> yaml) list"

datatype file_content = NoFile | Malformed | Document yaml

datatype py_error = FileNotFoundError | YAMLError | ValueError | TypeError | AttributeError

text \<open>Python truthiness, as used by \<open>x or {}\<close> and \<open>not x\<close>.\<close>

fun truthy :: "yaml \<Rightarrow> bool" where
  "truthy YNull = False"
| "truthy (YBool b) = b"
| "truthy (YInt n) = (n \<noteq> 0)"
| "truthy (YFloat r) = (r \<noteq> 0)"
| "truthy (YStr s) = (s \<noteq> [])"
| "truthy (YSeq xs) = (xs \<noteq> [])"
| "truthy (YMap kvs) = (kvs \<noteq> [])"

text \<open>\<open>x or {}\<close> and \<open>x or []\<close>.\<close>

definition or_empty_map :: "yaml \<Rightarrow> yaml" where
  "or_empty_map v = (if truthy v then v else YMap [])"

definition or_empty_seq :: "yaml \<Rightarrow> yaml" where
  "or_empty_seq v = (if truthy v then v else YSeq [])"

text \<open>\<open>d.get(k)\<close> and \<open>d.get(k, dflt)\<close>: only a mapping has the method.\<close>

definition py_get :: "yaml \<Rightarrow> string \<Rightarrow> py_error + yaml" where
  "py_get d k =
     (case d of
        YMap kvs \<Rightarrow> Inr (case map_of kvs (YStr k) of None \<Rightarrow> YNull | Some v \<Rightarrow> v)
      | _ \<Rightarrow> Inl AttributeError)"

definition py_get_or :: "yaml \<Rightarrow> string \<Rightarrow> yaml \<Rightarrow> py_error + yaml" where
  "py_get_or d k dflt =
     (case d of
        YMap kvs \<Rightarrow> Inr (case map_of kvs (YStr k) of None \<Rightarrow> dflt | Some v \<Rightarrow> v)
      | _ \<Rightarrow> Inl AttributeError)"

text \<open>\<open>d.items()\<close>, and iteration \<open>for x in v\<close>: over the elements of a sequence, the
  keys of a mapping, the characters of a string.\<close>

definition py_items :: "yaml \<Rightarrow> py_error + (yaml \<times> yaml) list" where
  "py_items d = (case d of YMap kvs \<Rightarrow> Inr kvs | _ \<Rightarrow> Inl AttributeError)"

definition py_iter :: "yaml \<Rightarrow> py_error + yaml list" where
  "py_iter v =
     (case v of
        YSeq xs \<Rightarrow> Inr xs
      | YMap kvs \<Rightarrow> Inr (map fst kvs)
      | YStr s \<Rightarrow> Inr (map (\<lambda>c. YStr [c]) s)
      | _ \<Rightarrow> Inl TypeError)"

text \<open>
  \<open>str(v)\<close> is the identity on a string.  The text Python prints for any other value
  (\<open>None\<close>, numbers, nested containers) is a parameter \<open>repr\<close> of the model.
\<close>

definition py_str :: "(yaml \<Rightarrow> string) \<Rightarrow> yaml \<Rightarrow> string" where
  "py_str repr v = (case v of YStr s \<Rightarrow> s | _ \<Rightarrow> repr v)"

definition bind_err :: "'e + 'a \<Rightarrow> ('a \<Rightarrow> 'e + 'b) \<Rightarrow> 'e + 'b" where
  "bind_err m f = (case m of Inl e \<Rightarrow> Inl e | Inr a \<Rightarrow> f a)"

fun map_err :: "('a \<Rightarrow> 'e + 'b) \<Rightarrow> 'a list \<Rightarrow> 'e + 'b list" where
  "map_err f [] = Inr []"
| "map_err f (x # xs) =
     bind_err (f x) (\<lambda>y. bind_err (map_err f xs) (\<lambda>ys. Inr (y # ys)))"

subsection \<open>Loading the defaults file (question\_answerer.py)\<close>

text \<open>\<open>safe_load(text) or {}\<close> for a file that exists.\<close>

definition load_document :: "file_content \<Rightarrow> py_error + yaml" where
  "load_document file =
     (case file of
        NoFile \<Rightarrow> Inl FileNotFoundError
      | Malformed \<Rightarrow> Inl YAMLError
      | Document doc \<Rightarrow> Inr (or_empty_map doc))"

definition alias_rule_of :: "(yaml \<Rightarrow> string) \<Rightarrow> yaml \<Rightarrow> py_error + alias_rule" where
  "alias_rule_of repr item =
     bind_err (py_get_or item ''key'' (YStr '''')) (\<lambda>k.
     bind_err (py_get item ''patterns'') (\<lambda>ps.
     bind_err (py_iter (or_empty_seq ps)) (\<lambda>ps'.
       Inr \<lparr>rule_key = py_str repr k,
            rule_patterns = map (\<lambda>p. lower (py_str repr p)) ps'\<rparr>)))"

definition load_defaults ::
  "(yaml \<Rightarrow> string) \<Rightarrow> file_content \<Rightarrow> py_error + (string \<rightharpoonup> string) \<times> alias_rule list" where
  "load_defaults repr file =
     (if file = NoFile then Inr (Map.empty, [])
      else
        bind_err (load_document file) (\<lambda>raw.
        bind_err (py_get raw ''defaults'') (\<lambda>d.
        bind_err (py_items (or_empty_map d)) (\<lambda>items.
        bind_err (py_get raw ''prompt_aliases'') (\<lambda>aliases.
        bind_err (py_iter (or_empty_seq aliases)) (\<lambda>aliases'.
        bind_err (map_err (alias_rule_of repr) aliases') (\<lambda>rules.
          Inr (fold (\<lambda>(k, v) m. m(py_str repr k \<mapsto> py_str repr v)) items Map.empty,
               rules))))))))"

text \<open>The constructor of \<open>QuestionAnswerer\<close>.\<close>

definition new_question_answerer ::
  "(yaml \<Rightarrow> string) \<Rightarrow> int \<Rightarrow> llm_client \<Rightarrow> file_content \<Rightarrow> py_error + question_answerer" where
  "new_question_answerer repr max_chars client file =
     bind_err (load_defaults repr file) (\<lambda>(d, rules).
       Inr \<lparr>max_answer_chars = max_chars, llm = client, defaults = d, alias_rules = rules\<rparr>)"

text \<open>
  The matching of the model's reply as the specification words it (exact match first, then
  containment in either direction), for comparison with \<open>answer_application_question\<close>.
\<close>

definition answer_application_question_spec ::
  "llm_client \<Rightarrow> string \<Rightarrow> job_posting \<Rightarrow> string \<Rightarrow> string list option \<Rightarrow> string" where
  "answer_application_question_spec c prompt job default_answer allowed_choices =
     (if \<not> llm_enabled c then default_answer
      else
        let choices = (case allowed_choices of None \<Rightarrow> [] | Some cs \<Rightarrow> cs);
            answer = strip (fst (chat c (prompt, title job, company job, choices, default_answer)))
        in if answer = [] then default_answer
           else if choices \<noteq> [] then
             (case lowered choices (lower answer) of
                Some ch \<Rightarrow> ch
              | None \<Rightarrow>
                  (case find (\<lambda>choice. is_in (lower choice) (lower answer)
                                        \<or> is_in (lower answer) (lower choice)) choices of
                     Some choice \<Rightarrow> choice
                   | None \<Rightarrow> if default_answer \<in> set choices then default_answer
                             else hd choices))
           else answer)"

section \<open>The resume slug (resume\_builder.py)\<close>

text \<open>
  \<open>re.sub(r"[^a-zA-Z0-9]+", "-", value)\<close> scans the text from the left and replaces every
  maximal run of characters outside \<open>a-z\<close>, \<open>A-Z\<close>, \<open>0-9\<close> by one hyphen.  The flag of
  \<open>sub_runs\<close> tells whether the scan is inside such a run, whose hyphen is already written.
\<close>

definition is_alnum :: "char \<Rightarrow> bool" where
  "is_alnum c =
     (let n = (of_char c :: nat)
      in (48 \<le> n \<and> n \<le> 57) \<or> (65 \<le> n \<and> n \<le> 90) \<or> (97 \<le> n \<and> n \<le> 122))"

fun sub_runs :: "bool \<Rightarrow> string \<Rightarrow> string" where
  "sub_runs in_run [] = []"
| "sub_runs in_run (c # cs) =
     (if is_alnum c then c # sub_runs False cs
      else if in_run then sub_runs True cs
      else CHR ''-'' # sub_runs True cs)"

definition re_sub_non_alnum :: "string \<Rightarrow> string" where
  "re_sub_non_alnum value = sub_runs False value"

text \<open>\<open>s.strip("-")\<close>.\<close>

definition strip_hyphens :: "string \<Rightarrow> string" where
  "strip_hyphens s =
     rev (dropWhile (\<lambda>c. c = CHR ''-'') (rev (dropWhile (\<lambda>c. c = CHR ''-'') s)))"

definition safe_slug :: "string \<Rightarrow> int \<Rightarrow> string" where
  "safe_slug value limit =
     (let cleaned = lower (strip_hyphens (re_sub_non_alnum value));
          cut = py_take limit cleaned
      in if cut \<noteq> [] then cut else ''job'')"

text \<open>The slug \<open>build\<close> computes, \<open>_safe_slug(f"{job.company}-{job.title}-{job.job_id}")\<close>,
  with the default limit of 60.\<close>

definition resume_slug :: "job_posting \<Rightarrow> string" where
  "resume_slug job = safe_slug (company job @ ''-'' @ title job @ ''-'' @ job_id job) 60"

text \<open>A character allowed in a slug: a lower-case letter, a digit or the hyphen.\<close>

definition slug_char :: "char \<Rightarrow> bool" where
  "slug_char c =
     (let n = (of_char c :: nat)
      in c = CHR ''-'' \<or> (48 \<le> n \<and> n \<le> 57) \<or> (97 \<le> n \<and> n \<le> 122))"

text \<open>
  The slug as the specification words it: the maximal runs of letters and digits of the
  text, lowered and joined by single hyphens, cut to the limit, \<open>job\<close> if nothing is left.
\<close>

fun split_words :: "string \<Rightarrow> string \<Rightarrow> string list" where
  "split_words cur [] = (if cur = [] then [] else [cur])"
| "split_words cur (c # cs) =
     (if is_alnum c then split_words (cur @ [c]) cs
      else (if cur = [] then [] else [cur]) @ split_words [] cs)"

fun join_hyphen :: "string list \<Rightarrow> string" where
  "join_hyphen [] = []"
| "join_hyphen [w] = w"
| "join_hyphen (w # ws) = w @ CHR ''-'' # join_hyphen ws"

definition slug_spec :: "string \<Rightarrow> int \<Rightarrow> string" where
  "slug_spec value limit =
     (let cut = py_take limit (join_hyphen (map lower (split_words [] value)))
      in if cut \<noteq> [] then cut else ''job'')"

text \<open>Auxiliary notions for the facts about the slug: a text that starts with a hyphen, a
  text that is empty or one hyphen, a non-empty run of letters and digits, and a text with
  no hyphen at either end.\<close>

definition starts_hyphen :: "string \<Rightarrow> bool" where
  "starts_hyphen s = (case s of [] \<Rightarrow> False | c # _ \<Rightarrow> c = CHR ''-'')"

definition hy :: "string \<Rightarrow> bool" where
  "hy t = (t = [] \<or> t = [CHR ''-''])"

definition word :: "string \<Rightarrow> bool" where
  "word w = (w \<noteq> [] \<and> (\<forall>c\<in>set w. is_alnum c))"

definition clean_ends :: "string \<Rightarrow> bool" where
  "clean_ends s = (s = [] \<or> (hd s \<noteq> CHR ''-'' \<and> last s \<noteq> CHR ''-''))"


section \<open>Facts about the string operations\<close>

lemma is_in_iff_sublist: "is_in p s \<longleftrightarrow> (\<exists>before after. s = before @ p @ after)"
proof -
  have "is_in p s \<longleftrightarrow> sublist p s"
    by (induction s) (auto simp: sublist_Cons_right)
  then show ?thesis by (simp add: sublist_def)
qed






section \<open>Facts about the question answerer\<close>

lemma pattern_hit_iff:
  "pattern_hit ps prompt \<longleftrightarrow> (\<exists>p\<in>set ps. p \<noteq> [] \<and> is_in p prompt)"
  by (induction ps) auto






lemma pattern_hit_rule_matches: "pattern_hit (rule_patterns r) prompt = rule_matches prompt r"
  by (simp add: pattern_hit_iff rule_matches_def list_ex_iff)

lemma alias_key_skip:
  "\<forall>r\<in>set before. \<not> rule_matches prompt r \<Longrightarrow>
     alias_key_for_prompt (before @ rest) prompt = alias_key_for_prompt rest prompt"
  by (induction before) (auto simp: pattern_hit_rule_matches)

section \<open>Alias resolution\<close>

text \<open>
  C2, as stated, fails: a rule whose only pattern is the empty string has a pattern that is a
  substring of every prompt, yet the loop skips empty patterns, so a later rule supplies the
  key.
\<close>

theorem alias_key_empty_pattern_counterexample:
  "first_matching_key_spec
     [\<lparr>rule_key = ''graduation'', rule_patterns = ['''']\<rparr>,
      \<lparr>rule_key = ''sponsorship'', rule_patterns = [''visa'']\<rparr>]
     (normalize_prompt ''Need a Visa?'') = ''graduation''
   \<and> alias_key_for_prompt
     [\<lparr>rule_key = ''graduation'', rule_patterns = ['''']\<rparr>,
      \<lparr>rule_key = ''sponsorship'', rule_patterns = [''visa'']\<rparr>]
     (normalize_prompt ''Need a Visa?'') = ''sponsorship''"
  by code_simp

text \<open>
  C2 (amended): a rule matches a prompt when one of its non-empty patterns is a substring
  of the normalised prompt.  The resolved key is the key of the first matching rule in list
  order, whatever rules follow it; when no rule matches, the resolved key is the empty
  string, which \<open>answer\<close> treats as no key.
\<close>

theorem alias_key_first_match:
  "((\<forall>r\<in>set before. \<not> rule_matches (normalize_prompt prompt) r)
      \<and> rule_matches (normalize_prompt prompt) rule
     \<longrightarrow> alias_key_for_prompt (before @ rule # after) (normalize_prompt prompt) = rule_key rule)
   \<and> ((\<forall>r\<in>set rules. \<not> rule_matches (normalize_prompt prompt) r)
     \<longrightarrow> alias_key_for_prompt rules (normalize_prompt prompt) = '''')"
proof (intro conjI impI)
  assume h: "(\<forall>r\<in>set before. \<not> rule_matches (normalize_prompt prompt) r)
      \<and> rule_matches (normalize_prompt prompt) rule"
  then have "alias_key_for_prompt (before @ rule # after) (normalize_prompt prompt)
               = alias_key_for_prompt (rule # after) (normalize_prompt prompt)"
    by (simp add: alias_key_skip)
  with h show "alias_key_for_prompt (before @ rule # after) (normalize_prompt prompt)
                 = rule_key rule"
    by (simp add: pattern_hit_rule_matches)
next
  assume "\<forall>r\<in>set rules. \<not> rule_matches (normalize_prompt prompt) r"
  then have "alias_key_for_prompt (rules @ []) (normalize_prompt prompt)
               = alias_key_for_prompt [] (normalize_prompt prompt)"
    by (rule alias_key_skip)
  then show "alias_key_for_prompt rules (normalize_prompt prompt) = ''''"
    by simp
qed

theorem alias_key_first_match_witness:
  "\<not> rule_matches (normalize_prompt ''  Need a VISA to relocate? '')
        \<lparr>rule_key = ''graduation'', rule_patterns = ['''', ''graduat'']\<rparr>
   \<and> rule_matches (normalize_prompt ''  Need a VISA to relocate? '')
        \<lparr>rule_key = ''sponsorship'', rule_patterns = [''sponsor'', ''visa'']\<rparr>
   \<and> alias_key_for_prompt
        ([\<lparr>rule_key = ''graduation'', rule_patterns = ['''', ''graduat'']\<rparr>]
         @ \<lparr>rule_key = ''sponsorship'', rule_patterns = [''sponsor'', ''visa'']\<rparr>
         # [\<lparr>rule_key = ''relocation'', rule_patterns = [''relocate'']\<rparr>])
        (normalize_prompt ''  Need a VISA to relocate? '') = ''sponsorship''
   \<and> \<not> rule_matches (normalize_prompt ''Salary?'')
        \<lparr>rule_key = ''graduation'', rule_patterns = ['''', ''graduat'']\<rparr>
   \<and> alias_key_for_prompt [\<lparr>rule_key = ''graduation'', rule_patterns = ['''', ''graduat'']\<rparr>]
        (normalize_prompt ''Salary?'') = ''''"
proof -
  have a: "\<forall>r\<in>set [\<lparr>rule_key = ''graduation'', rule_patterns = ['''', ''graduat'']\<rparr>].
       \<not> rule_matches (normalize_prompt ''  Need a VISA to relocate? '') r"
    by code_simp
  have b: "rule_matches (normalize_prompt ''  Need a VISA to relocate? '')
        \<lparr>rule_key = ''sponsorship'', rule_patterns = [''sponsor'', ''visa'']\<rparr>"
    by code_simp
  have c: "\<forall>r\<in>set [\<lparr>rule_key = ''graduation'', rule_patterns = ['''', ''graduat'']\<rparr>].
       \<not> rule_matches (normalize_prompt ''Salary?'') r"
    by code_simp
  from a b c
    alias_key_first_match [of "[\<lparr>rule_key = ''graduation'', rule_patterns = ['''', ''graduat'']\<rparr>]"
      "''  Need a VISA to relocate? ''"
      "\<lparr>rule_key = ''sponsorship'', rule_patterns = [''sponsor'', ''visa'']\<rparr>"
      "[\<lparr>rule_key = ''relocation'', rule_patterns = [''relocate'']\<rparr>]" "[]"]
    alias_key_first_match [of "[]" "''Salary?''" "\<lparr>rule_key = '''', rule_patterns = []\<rparr>" "[]"
      "[\<lparr>rule_key = ''graduation'', rule_patterns = ['''', ''graduat'']\<rparr>]"]
  show ?thesis by simp
qed

section \<open>Answers constrained to a choice list\<close>





section \<open>The heuristic table\<close>

lemma load_defaults_missing_or_empty:
  "file = NoFile \<or> file = Document YNull \<Longrightarrow> load_defaults repr file = Inr (Map.empty, [])"
  by (auto simp: load_defaults_def load_document_def or_empty_map_def or_empty_seq_def py_get_def
        py_items_def py_iter_def bind_err_def)

lemma py_take_empty: "py_take n [] = []"
  by (simp add: py_take_def)

lemma py_take_short: "int (length s) \<le> n \<Longrightarrow> py_take n s = s"
  by (simp add: py_take_def)

lemma strip_empty: "strip [] = []"
  by (simp add: strip_def)

lemma heuristic_default_length: "int (length (heuristic_default p)) \<le> 3"
  by (simp add: heuristic_default_def)

text \<open>A client that is disabled, or whose provider fails or replies with nothing, hands the
  default answer back.\<close>

lemma answer_application_question_run_silent:
  assumes "fst (chat c (prompt, title job, company job, [], d)) = []"
  shows "fst (answer_application_question_run c prompt job d (Some [])) = d"
  using assms
  by (auto simp: answer_application_question_run_def Let_def strip_empty split: prod.splits)

lemma answer_no_choices_silent:
  assumes "normalize_choices choices = []"
    and "defaults qa = Map.empty" and "alias_rules qa = []"
    and "fst (chat (llm qa) (prompt, title job, company job, [],
                heuristic_default (normalize_prompt prompt))) = []"
  shows "answer qa prompt input_type job choices
           = py_take (max_answer_chars qa) (heuristic_default (normalize_prompt prompt))"
proof -
  let ?h = "heuristic_default (normalize_prompt prompt)"
  have r: "resolve_default qa (normalize_prompt prompt) = ?h"
    using assms(2,3) by (simp add: resolve_default_def)
  have l: "fst (answer_application_question_run (llm qa) prompt job ?h (Some [])) = ?h"
    using assms(4) by (rule answer_application_question_run_silent)
  show ?thesis
    unfolding answer_def answer_run_def Let_def r assms(1)
    using l assms(2)
    by (cases "?h = []") (auto simp: get_default_def py_take_empty split: prod.splits)
qed

text \<open>
  C6, as stated, fails in three ways, all with an empty defaults mapping and no choices.
  The table is ordered: a prompt that contains both \<open>visa\<close> and \<open>work authorization\<close> is
  answered \<open>Yes\<close>, not \<open>No\<close>.  An enabled language model that replies is preferred to the
  table.  The answer is cut to \<open>max_answer_chars\<close> characters.
\<close>

theorem heuristic_table_counterexample:
  "is_in ''visa'' (normalize_prompt ''Need a visa for work authorization?'')
   \<and> answer
       \<lparr>max_answer_chars = 1000,
          llm = \<lparr>llm_enabled = False, llm_complete = (\<lambda>_. ProviderError)\<rparr>,
          defaults = Map.empty, alias_rules = []\<rparr>
       ''Need a visa for work authorization?'' ''text''
       \<lparr>job_id = ''1'', title = ''SWE Intern'', company = '''', location = '''',
          description = '''', url = ''''\<rparr> None = ''Yes''
   \<and> is_in ''visa'' (normalize_prompt ''Do you need a visa?'')
   \<and> answer
       \<lparr>max_answer_chars = 1000,
          llm = \<lparr>llm_enabled = True, llm_complete = (\<lambda>_. Reply (Some ''I do not.''))\<rparr>,
          defaults = Map.empty, alias_rules = []\<rparr>
       ''Do you need a visa?'' ''text''
       \<lparr>job_id = ''1'', title = ''SWE Intern'', company = '''', location = '''',
          description = '''', url = ''''\<rparr> None = ''I do not.''
   \<and> is_in ''relocate'' (normalize_prompt ''Can you relocate?'')
   \<and> answer
       \<lparr>max_answer_chars = 2,
          llm = \<lparr>llm_enabled = False, llm_complete = (\<lambda>_. ProviderError)\<rparr>,
          defaults = Map.empty, alias_rules = []\<rparr>
       ''Can you relocate?'' ''text''
       \<lparr>job_id = ''1'', title = ''SWE Intern'', company = '''', location = '''',
          description = '''', url = ''''\<rparr> None = ''Ye''"
  by code_simp

text \<open>
  C6 (amended): with a missing or empty defaults file the question answerer starts with no
  defaults and no alias rules.  When no choices are supplied and the language model is
  silent for the question (disabled, or its provider fails or replies with nothing),
  \<open>answer\<close> returns the entry of the ordered table, cut to \<open>max_answer_chars\<close> characters:
  \<open>Yes\<close> for a normalised prompt containing \<open>authorized to work\<close> or \<open>work
  authorization\<close>; otherwise \<open>No\<close> for one containing \<open>sponsorship\<close> or \<open>visa\<close>; otherwise
  \<open>Yes\<close> for one containing \<open>relocate\<close>; otherwise the empty string.  With
  \<open>max_answer_chars\<close> at least 3 the entry is returned whole.
\<close>

theorem heuristic_fallback:
  assumes "file = NoFile \<or> file = Document YNull"
    and "normalize_choices choices = []"
    and "fst (chat client (prompt, title job, company job, [],
                heuristic_default (normalize_prompt prompt))) = []"
  shows "new_question_answerer repr max_chars client file
           = Inr \<lparr>max_answer_chars = max_chars, llm = client,
                  defaults = Map.empty, alias_rules = []\<rparr>
         \<and> answer \<lparr>max_answer_chars = max_chars, llm = client,
                     defaults = Map.empty, alias_rules = []\<rparr> prompt input_type job choices
             = py_take max_chars
                 (if is_in ''authorized to work'' (normalize_prompt prompt)
                     \<or> is_in ''work authorization'' (normalize_prompt prompt) then ''Yes''
                  else if is_in ''sponsorship'' (normalize_prompt prompt)
                     \<or> is_in ''visa'' (normalize_prompt prompt) then ''No''
                  else if is_in ''relocate'' (normalize_prompt prompt) then ''Yes''
                  else '''')
         \<and> (3 \<le> max_chars \<longrightarrow>
              answer \<lparr>max_answer_chars = max_chars, llm = client,
                       defaults = Map.empty, alias_rules = []\<rparr> prompt input_type job choices
                = (if is_in ''authorized to work'' (normalize_prompt prompt)
                     \<or> is_in ''work authorization'' (normalize_prompt prompt) then ''Yes''
                   else if is_in ''sponsorship'' (normalize_prompt prompt)
                     \<or> is_in ''visa'' (normalize_prompt prompt) then ''No''
                   else if is_in ''relocate'' (normalize_prompt prompt) then ''Yes''
                   else ''''))"
proof -
  let ?qa = "\<lparr>max_answer_chars = max_chars, llm = client,
               defaults = Map.empty, alias_rules = []\<rparr>"
  let ?h = "heuristic_default (normalize_prompt prompt)"
  have new: "new_question_answerer repr max_chars client file = Inr ?qa"
    using load_defaults_missing_or_empty[OF assms(1)]
    by (simp add: new_question_answerer_def bind_err_def)
  have "fst (chat (llm ?qa) (prompt, title job, company job, [], ?h)) = []"
    using assms(3) by simp
  then have ans: "answer ?qa prompt input_type job choices = py_take (max_answer_chars ?qa) ?h"
    using assms(2) by (intro answer_no_choices_silent) simp_all
  have whole: "3 \<le> max_chars \<Longrightarrow> py_take max_chars ?h = ?h"
    using heuristic_default_length[of "normalize_prompt prompt"]
    by (intro py_take_short) linarith
  have tab: "?h = (if is_in ''authorized to work'' (normalize_prompt prompt)
                     \<or> is_in ''work authorization'' (normalize_prompt prompt) then ''Yes''
                   else if is_in ''sponsorship'' (normalize_prompt prompt)
                     \<or> is_in ''visa'' (normalize_prompt prompt) then ''No''
                   else if is_in ''relocate'' (normalize_prompt prompt) then ''Yes''
                   else '''')"
    by (simp only: heuristic_default_def)
  from ans have ans': "answer ?qa prompt input_type job choices = py_take max_chars ?h"
    by simp
  show ?thesis
    using new ans' whole unfolding tab by simp
qed

theorem heuristic_fallback_witness:
  "normalize_choices None = []
   \<and> fst (chat \<lparr>llm_enabled = False, llm_complete = (\<lambda>_. ProviderError)\<rparr>
            (''Will you need visa sponsorship?'', ''SWE Intern'', ''Acme'', [],
             heuristic_default (normalize_prompt ''Will you need visa sponsorship?''))) = []
   \<and> new_question_answerer (\<lambda>_. '''') 1000
        \<lparr>llm_enabled = False, llm_complete = (\<lambda>_. ProviderError)\<rparr> NoFile
        = Inr \<lparr>max_answer_chars = 1000,
               llm = \<lparr>llm_enabled = False, llm_complete = (\<lambda>_. ProviderError)\<rparr>,
               defaults = Map.empty, alias_rules = []\<rparr>
   \<and> answer \<lparr>max_answer_chars = 1000,
               llm = \<lparr>llm_enabled = False, llm_complete = (\<lambda>_. ProviderError)\<rparr>,
               defaults = Map.empty, alias_rules = []\<rparr>
        ''Will you need visa sponsorship?'' ''text''
        \<lparr>job_id = ''1'', title = ''SWE Intern'', company = ''Acme'', location = '''',
           description = '''', url = ''''\<rparr> None = ''No''"
proof -
  let ?c = "\<lparr>llm_enabled = False, llm_complete = (\<lambda>_. ProviderError)\<rparr>"
  let ?j = "\<lparr>job_id = ''1'', title = ''SWE Intern'', company = ''Acme'', location = '''',
           description = '''', url = ''''\<rparr>"
  have f: "NoFile = NoFile \<or> NoFile = Document YNull"
    by simp
  have n: "normalize_choices None = []"
    by (simp add: normalize_choices_def)
  have s: "fst (chat ?c (''Will you need visa sponsorship?'', title ?j, company ?j, [],
             heuristic_default (normalize_prompt ''Will you need visa sponsorship?''))) = []"
    by (simp add: chat_def)
  have t: "py_take 1000
             (if is_in ''authorized to work'' (normalize_prompt ''Will you need visa sponsorship?'')
                 \<or> is_in ''work authorization'' (normalize_prompt ''Will you need visa sponsorship?'')
              then ''Yes''
              else if is_in ''sponsorship'' (normalize_prompt ''Will you need visa sponsorship?'')
                 \<or> is_in ''visa'' (normalize_prompt ''Will you need visa sponsorship?'') then ''No''
              else if is_in ''relocate'' (normalize_prompt ''Will you need visa sponsorship?'')
              then ''Yes'' else '''') = ''No''"
    by code_simp
  show ?thesis
    using n s heuristic_fallback [OF f n s, of "\<lambda>_. ''''" 1000 "''text''"]
    unfolding t by simp
qed

section \<open>Matching the model's reply against the choices (llm.py)\<close>

lemma answer_application_question_disabled:
  "\<not> llm_enabled c \<Longrightarrow> answer_application_question c prompt job d choices = d"
  by (simp add: answer_application_question_def answer_application_question_run_def)

lemma answer_application_question_no_reply:
  assumes "fst (chat c (prompt, title job, company job,
                  (case choices of None \<Rightarrow> [] | Some cs \<Rightarrow> cs), d)) = []"
  shows "answer_application_question c prompt job d choices = d"
  using assms
  by (auto simp: answer_application_question_def answer_application_question_run_def Let_def
        strip_empty split: prod.splits)

text \<open>What the code does with a non-empty reply when choices are supplied: the exact match
  up to letter case first, then the first choice contained in the reply, then the default
  answer if it is a choice, else the first choice.\<close>

lemma answer_application_question_choices:
  assumes "llm_enabled c" and "cs \<noteq> []"
    and "chat c (prompt, title job, company job, cs, d) = (raw, calls)" and "strip raw \<noteq> []"
  shows "answer_application_question c prompt job d (Some cs)
           = (case lowered cs (lower (strip raw)) of
                Some ch \<Rightarrow> ch
              | None \<Rightarrow>
                  (case find (\<lambda>choice. is_in (lower choice) (lower (strip raw))) cs of
                     Some choice \<Rightarrow> choice
                   | None \<Rightarrow> if d \<in> set cs then d else hd cs))"
  using assms
  by (simp add: answer_application_question_def answer_application_question_run_def Let_def)

text \<open>
  C4: the claim describes containment in either direction.  The code tests only whether a
  choice is contained in the reply.  For the reply \<open>Yes\<close> and the choices
  \<open>No, I need sponsorship\<close> and \<open>Yes, I am authorized\<close> the reply is contained in the second
  choice, which matching in either direction selects; the code finds no match and falls back
  to the first choice.
\<close>

theorem answer_application_question_one_direction:
  "answer_application_question
     \<lparr>llm_enabled = True, llm_complete = (\<lambda>_. Reply (Some ''Yes''))\<rparr>
     ''Work authorization status''
     \<lparr>job_id = ''1'', title = ''SWE Intern'', company = ''Acme'', location = '''',
        description = '''', url = ''''\<rparr>
     '''' (Some [''No, I need sponsorship'', ''Yes, I am authorized''])
     = ''No, I need sponsorship''
   \<and> answer_application_question_spec
     \<lparr>llm_enabled = True, llm_complete = (\<lambda>_. Reply (Some ''Yes''))\<rparr>
     ''Work authorization status''
     \<lparr>job_id = ''1'', title = ''SWE Intern'', company = ''Acme'', location = '''',
        description = '''', url = ''''\<rparr>
     '''' (Some [''No, I need sponsorship'', ''Yes, I am authorized''])
     = ''Yes, I am authorized''
   \<and> match_choice ''Yes'' [''No, I need sponsorship'', ''Yes, I am authorized'']
     = ''Yes, I am authorized''"
  by code_simp

section \<open>Facts about the resume slug\<close>

lemma is_in_part: "is_in p s \<Longrightarrow> is_in p (a @ s @ b)"
  unfolding is_in_iff_sublist by (metis append.assoc)

lemma hyphen_not_alnum: "\<not> is_alnum CHR ''-''"
  by (simp add: is_alnum_def)

lemma double_hyphen_Cons:
  "is_in ''--'' (c # s) \<longleftrightarrow> (c = CHR ''-'' \<and> starts_hyphen s) \<or> is_in ''--'' s"
  by (cases s) (auto simp: starts_hyphen_def)

lemma double_hyphen_Nil: "\<not> is_in ''--'' []"
  by simp

lemma sub_runs_in_run: "\<not> starts_hyphen (sub_runs True v)"
  by (induction v) (auto simp: starts_hyphen_def hyphen_not_alnum)

lemma sub_runs_no_double: "\<not> is_in ''--'' (sub_runs f v)"
proof (induction v arbitrary: f)
  case Nil
  show ?case by simp
next
  case (Cons c v)
  show ?case
    using Cons.IH sub_runs_in_run hyphen_not_alnum
    by (auto simp: double_hyphen_Cons simp del: is_in.simps)
qed

lemma sub_runs_chars: "c \<in> set (sub_runs f v) \<Longrightarrow> is_alnum c \<or> c = CHR ''-''"
  by (induction v arbitrary: f) (auto split: if_splits)

lemma rev_dropWhile_part: "xs = rev (dropWhile P (rev xs)) @ rev (takeWhile P (rev xs))"
  by (metis rev_append rev_rev_ident takeWhile_dropWhile_id)

lemma strip_hyphens_part: "\<exists>a b. s = a @ strip_hyphens s @ b"
proof -
  let ?P = "\<lambda>c. c = CHR ''-''"
  let ?d = "dropWhile ?P s"
  have 1: "s = takeWhile ?P s @ ?d" by simp
  have 2: "?d = strip_hyphens s @ rev (takeWhile ?P (rev ?d))"
    unfolding strip_hyphens_def by (rule rev_dropWhile_part)
  from 1 2 show ?thesis by metis
qed

lemma strip_hyphens_set: "set (strip_hyphens s) \<subseteq> set s"
  using strip_hyphens_part[of s] by (metis Un_iff set_append subsetI)

lemma strip_hyphens_no_double: "\<not> is_in ''--'' s \<Longrightarrow> \<not> is_in ''--'' (strip_hyphens s)"
  using strip_hyphens_part[of s] is_in_part by metis

lemma of_char_hyphen: "(of_char (CHR ''-'') :: nat) = 45"
  by simp

lemma hyphen_iff: "c = CHR ''-'' \<longleftrightarrow> (of_char c :: nat) = 45"
  using of_char_eq_iff[of c "CHR ''-''", where ?'a = nat] by (simp only: of_char_hyphen)

lemma lower_char_hyphen: "lower_char c = CHR ''-'' \<longleftrightarrow> c = CHR ''-''"
  unfolding hyphen_iff by (auto simp: lower_char_def Let_def)

lemma starts_hyphen_lower: "starts_hyphen (lower s) = starts_hyphen s"
  by (cases s) (simp_all add: starts_hyphen_def lower_def lower_char_hyphen)

lemma lower_no_double: "is_in ''--'' (lower s) \<longleftrightarrow> is_in ''--'' s"
proof (induction s)
  case Nil
  show ?case by (simp add: lower_def)
next
  case (Cons c s)
  have "lower (c # s) = lower_char c # lower s"
    by (simp add: lower_def)
  then show ?case
    using Cons.IH by (simp add: double_hyphen_Cons starts_hyphen_lower lower_char_hyphen del: is_in.simps)
qed

lemma lower_alnum_slug: "is_alnum c \<Longrightarrow> slug_char (lower_char c)"
  by (auto simp: is_alnum_def slug_char_def lower_char_def Let_def)

lemma slug_char_hyphen: "slug_char (CHR ''-'')"
  by (simp add: slug_char_def)

lemma take_no_double: "\<not> is_in p s \<Longrightarrow> \<not> is_in p (take n s)"
  using is_in_part[of p "take n s" "[]" "drop n s"] by auto

lemma py_take_60: "py_take 60 s = take 60 s"
  by (simp add: py_take_def)

lemma job_slug: "(\<forall>c\<in>set (''job''). slug_char c)"
  by (simp add: slug_char_def)


lemma cleaned_chars:
  assumes "c \<in> set (lower (strip_hyphens (re_sub_non_alnum v)))"
  shows "slug_char c"
proof -
  from assms obtain c' where c': "c' \<in> set (strip_hyphens (sub_runs False v))" "c = lower_char c'"
    by (auto simp: lower_def re_sub_non_alnum_def)
  then have "c' \<in> set (sub_runs False v)"
    using strip_hyphens_set by blast
  then have "is_alnum c' \<or> c' = CHR ''-''"
    by (rule sub_runs_chars)
  then show ?thesis
    using c'(2) lower_alnum_slug lower_char_hyphen slug_char_hyphen by metis
qed

lemma cleaned_no_double: "\<not> is_in ''--'' (lower (strip_hyphens (re_sub_non_alnum v)))"
  unfolding lower_no_double re_sub_non_alnum_def
  by (rule strip_hyphens_no_double) (rule sub_runs_no_double)

lemma safe_slug_safe_60:
  "list_all slug_char (safe_slug v 60)
   \<and> \<not> is_in ''--'' (safe_slug v 60)
   \<and> length (safe_slug v 60) \<le> 60
   \<and> safe_slug v 60 \<noteq> []"
proof -
  let ?cl = "lower (strip_hyphens (re_sub_non_alnum v))"
  show ?thesis
  proof (cases "take 60 ?cl = []")
    case True
    then have "safe_slug v 60 = ''job''"
      by (simp add: safe_slug_def py_take_60)
    then show ?thesis
      by (simp add: slug_char_def)
  next
    case False
    then have eq: "safe_slug v 60 = take 60 ?cl"
      by (simp add: safe_slug_def py_take_60)
    have "list_all slug_char (take 60 ?cl)"
      using cleaned_chars[of _ v] by (auto simp: list_all_iff dest: in_set_takeD)
    moreover have "\<not> is_in ''--'' (take 60 ?cl)"
      using cleaned_no_double by (rule take_no_double)
    ultimately show ?thesis
      using False unfolding eq by simp
  qed
qed

lemma resume_slug_empty:
  "resume_slug \<lparr>job_id = [], title = [], company = [], location = l, description = d, url = u\<rparr>
     = ''job''"
  by (simp add: resume_slug_def safe_slug_def re_sub_non_alnum_def strip_hyphens_def lower_def
        py_take_def is_alnum_def)

lemma join_Cons: "join_hyphen (w # ws) = (if ws = [] then w else w @ CHR ''-'' # join_hyphen ws)"
  by (cases ws) simp_all

lemma sub_runs_True_not_hyphen: "sub_runs True v \<noteq> [CHR ''-'']"
  using sub_runs_in_run[of v] by (auto simp: starts_hyphen_def)

lemma sub_runs_split:
  "(\<exists>t. hy t \<and> sub_runs True v = join_hyphen (split_words [] v) @ t)
   \<and> (\<forall>cur. cur \<noteq> [] \<longrightarrow> (\<exists>t. hy t \<and> cur @ sub_runs False v = join_hyphen (split_words cur v) @ t))"
proof (induction v)
  case Nil
  show ?case by (auto simp: hy_def)
next
  case (Cons c v)
  from Cons.IH obtain t where t: "hy t" "sub_runs True v = join_hyphen (split_words [] v) @ t"
    by blast
  from Cons.IH have F: "\<And>cur. cur \<noteq> [] \<Longrightarrow>
      \<exists>t. hy t \<and> cur @ sub_runs False v = join_hyphen (split_words cur v) @ t"
    by blast
  show ?case
  proof (cases "is_alnum c")
    case True
    have 1: "\<exists>t. hy t \<and> sub_runs True (c # v) = join_hyphen (split_words [] (c # v)) @ t"
      using F[of "[c]"] True by simp
    have 2: "\<And>cur. cur \<noteq> [] \<Longrightarrow>
        \<exists>t. hy t \<and> cur @ sub_runs False (c # v) = join_hyphen (split_words cur (c # v)) @ t"
      using F True by (metis (no_types) Nil_is_append_conv append.assoc append_Cons append_Nil
          split_words.simps(2) sub_runs.simps(2))
    from 1 2 show ?thesis by blast
  next
    case False
    have 1: "\<exists>t. hy t \<and> sub_runs True (c # v) = join_hyphen (split_words [] (c # v)) @ t"
      using t False by auto
    have 2: "\<exists>t'. hy t' \<and> cur @ sub_runs False (c # v) = join_hyphen (split_words cur (c # v)) @ t'"
      if "cur \<noteq> []" for cur
    proof (cases "split_words [] v = []")
      case True
      with t have "sub_runs True v = t" by simp
      with t(1) have "sub_runs True v = []"
        using sub_runs_True_not_hyphen[of v] by (auto simp: hy_def)
      then show ?thesis
        using False that True by (auto simp: hy_def)
    next
      case ne: False
      then show ?thesis
        using False that t by (auto simp: join_Cons)
    qed
    from 1 2 show ?thesis by blast
  qed
qed


lemma sub_runs_False_split:
  "\<exists>l t. hy l \<and> hy t \<and> sub_runs False v = l @ join_hyphen (split_words [] v) @ t"
proof (cases v)
  case Nil
  then show ?thesis by (auto simp: hy_def)
next
  case (Cons c cs)
  show ?thesis
  proof (cases "is_alnum c")
    case True
    from sub_runs_split[of cs] obtain t where
      "hy t" "[c] @ sub_runs False cs = join_hyphen (split_words [c] cs) @ t"
      by blast
    then have "hy [] \<and> hy t \<and> sub_runs False v = [] @ join_hyphen (split_words [] v) @ t"
      using True Cons by (simp add: hy_def)
    then show ?thesis by blast
  next
    case False
    from sub_runs_split[of cs] obtain t where
      "hy t" "sub_runs True cs = join_hyphen (split_words [] cs) @ t"
      by blast
    then have "hy [CHR ''-''] \<and> hy t
        \<and> sub_runs False v = [CHR ''-''] @ join_hyphen (split_words [] v) @ t"
      using False Cons by (simp add: hy_def)
    then show ?thesis by blast
  qed
qed

lemma split_words_word:
  "cur = [] \<or> word cur \<Longrightarrow> w \<in> set (split_words cur v) \<Longrightarrow> word w"
proof (induction v arbitrary: cur)
  case Nil
  then show ?case by (auto split: if_splits)
next
  case (Cons c v)
  show ?case
  proof (cases "is_alnum c")
    case True
    have "word (cur @ [c])"
      using Cons.prems(1) True by (auto simp: word_def)
    then show ?thesis
      using Cons.IH[of "cur @ [c]"] Cons.prems(2) True by simp
  next
    case False
    then show ?thesis
      using Cons.IH[of "[]"] Cons.prems by (auto split: if_splits)
  qed
qed

lemma word_ends: "word w \<Longrightarrow> hd w \<noteq> CHR ''-'' \<and> last w \<noteq> CHR ''-''"
  using hyphen_not_alnum by (metis hd_in_set last_in_set word_def)

lemma join_clean_ends: "\<forall>w\<in>set ws. word w \<Longrightarrow> clean_ends (join_hyphen ws)"
proof (induction ws rule: join_hyphen.induct)
  case 1
  show ?case by (simp add: clean_ends_def)
next
  case (2 w)
  then show ?case using word_ends[of w] by (simp add: clean_ends_def)
next
  case (3 w v va)
  have w: "word w" using 3 by simp
  then have "w \<noteq> []" by (simp add: word_def)
  moreover have "clean_ends (join_hyphen (v # va))" using 3 by simp
  moreover have "join_hyphen (v # va) \<noteq> []"
    using 3(2) by (cases va) (auto simp: word_def)
  ultimately show ?case
    using word_ends[OF w] by (simp add: clean_ends_def)
qed

lemma strip_hyphens_clean:
  assumes "hy l" "hy t" "clean_ends s"
  shows "strip_hyphens (l @ s @ t) = s"
proof (cases "s = []")
  case True
  then show ?thesis
    using assms(1,2) by (auto simp: hy_def strip_hyphens_def)
next
  case False
  with assms(3) have h: "hd s \<noteq> CHR ''-''" and la: "last s \<noteq> CHR ''-''"
    by (auto simp: clean_ends_def)
  from False h have 1: "dropWhile (\<lambda>c. c = CHR ''-'') (l @ s @ t) = s @ t"
    using assms(1) by (cases s) (auto simp: hy_def)
  from False la have 2: "dropWhile (\<lambda>c. c = CHR ''-'') (rev (s @ t)) = rev s"
    using assms(2) by (cases s rule: rev_cases) (auto simp: hy_def)
  show ?thesis
    by (simp only: strip_hyphens_def 1 2 rev_rev_ident)
qed

lemma lower_append: "lower (a @ b) = lower a @ lower b"
  by (simp add: lower_def)

lemma lower_join: "lower (join_hyphen ws) = join_hyphen (map lower ws)"
proof (induction ws rule: join_hyphen.induct)
  case (3 w v va)
  have "lower (w @ CHR ''-'' # join_hyphen (v # va))
          = lower w @ CHR ''-'' # lower (join_hyphen (v # va))"
    by (simp add: lower_def lower_char_def)
  then show ?case using 3 by simp
qed (simp_all add: lower_def)

lemma safe_slug_slug_spec: "safe_slug v limit = slug_spec v limit"
proof -
  from sub_runs_False_split[of v] obtain l t where
    lt: "hy l" "hy t" "sub_runs False v = l @ join_hyphen (split_words [] v) @ t"
    by blast
  have "clean_ends (join_hyphen (split_words [] v))"
    by (rule join_clean_ends) (auto intro: split_words_word[of "[]"])
  then have "strip_hyphens (re_sub_non_alnum v) = join_hyphen (split_words [] v)"
    unfolding re_sub_non_alnum_def lt(3) using lt(1,2) by (intro strip_hyphens_clean)
  then show ?thesis
    by (simp add: safe_slug_def slug_spec_def lower_join)
qed

text \<open>
  C9: the slug is a function of the text alone, and it is the text's maximal runs of letters
  and digits, lowered and joined by single hyphens (so every run of other characters between
  two of them becomes exactly one hyphen, and such runs at either end disappear), cut to the
  limit, \<open>job\<close> if nothing is left.  With the default limit of 60, which \<open>build\<close> uses, the
  slug holds only lower-case letters, digits and hyphens, has no two hyphens in a row, has at
  most 60 characters and is not empty; for a job whose company, title and id are all empty it
  is \<open>job\<close>.
\<close>

theorem safe_slug_filesystem_safe:
  "safe_slug v limit = slug_spec v limit
   \<and> list_all slug_char (safe_slug v 60)
   \<and> \<not> is_in ''--'' (safe_slug v 60)
   \<and> length (safe_slug v 60) \<le> 60
   \<and> safe_slug v 60 \<noteq> []
   \<and> resume_slug job = safe_slug (company job @ ''-'' @ title job @ ''-'' @ job_id job) 60
   \<and> resume_slug \<lparr>job_id = '''', title = '''', company = '''', location = l,
                    description = d, url = u\<rparr> = ''job''"
  using safe_slug_slug_spec[of v limit] safe_slug_safe_60[of v] resume_slug_empty[of l d u]
  by (simp add: resume_slug_def)

theorem safe_slug_filesystem_safe_witness:
  "safe_slug ''Acme, Inc.-SWE Intern!!-42'' 60 = ''acme-inc-swe-intern-42''
   \<and> list_all slug_char (safe_slug ''Acme, Inc.-SWE Intern!!-42'' 60)
   \<and> \<not> is_in ''--'' (safe_slug ''Acme, Inc.-SWE Intern!!-42'' 60)
   \<and> length (safe_slug ''Acme, Inc.-SWE Intern!!-42'' 60) \<le> 60
   \<and> resume_slug \<lparr>job_id = ''42'', title = ''SWE Intern!!'', company = ''Acme, Inc.'',
                    location = '''', description = '''', url = ''''\<rparr>
       = ''acme-inc-swe-intern-42''"
proof -
  have s: "slug_spec ''Acme, Inc.-SWE Intern!!-42'' 60 = ''acme-inc-swe-intern-42''"
    by code_simp
  have t: "company \<lparr>job_id = ''42'', title = ''SWE Intern!!'', company = ''Acme, Inc.'',
                      location = '''', description = '''', url = ''''\<rparr> @ ''-''
             @ title \<lparr>job_id = ''42'', title = ''SWE Intern!!'', company = ''Acme, Inc.'',
                      location = '''', description = '''', url = ''''\<rparr> @ ''-''
             @ job_id \<lparr>job_id = ''42'', title = ''SWE Intern!!'', company = ''Acme, Inc.'',
                      location = '''', description = '''', url = ''''\<rparr>
           = ''Acme, Inc.-SWE Intern!!-42''"
    by simp
  show ?thesis
    using safe_slug_filesystem_safe [of "''Acme, Inc.-SWE Intern!!-42''" 60
        "\<lparr>job_id = ''42'', title = ''SWE Intern!!'', company = ''Acme, Inc.'',
           location = '''', description = '''', url = ''''\<rparr>" "''''" "''''" "''''"]
    unfolding s t by (elim conjE) (intro conjI, assumption+, simp)
qed

end
